theory Spec2Isabelle
  imports Complex_Main
begin

section \<open>StudyMate: the in-memory vector store and the session script\<close>

text \<open>
  The repository consists of the Streamlit script \<^verbatim>\<open>app.py\<close> and of the two modules it
  imports, \<^verbatim>\<open>vector_store\<close> (the class \<^verbatim>\<open>SimpleVectorStore\<close>) and \<^verbatim>\<open>utils\<close> (text
  extraction, chunking, embedding and answer generation). The script is embedded from its
  source. The store is embedded from its specification. The functions of \<^verbatim>\<open>utils\<close> and
  the widgets of the user interface are parameters of the script.
\<close>

subsection \<open>Exceptions\<close>

text \<open>
  An exception is a value. \<open>Raised msg\<close> stands for any exception a collaborator raises,
  with the text \<^verbatim>\<open>str(e)\<close> that the script prints.
\<close>

datatype exn =
    StoreError string
  | ZeroDivisionError
  | IndexError
  | Raised string

fun str_exn :: "exn \<Rightarrow> string" where
  "str_exn (StoreError msg) = msg"
| "str_exn ZeroDivisionError = ''float division by zero''"
| "str_exn IndexError = ''list index out of range''"
| "str_exn (Raised msg) = msg"

subsection \<open>Data model\<close>

type_synonym embedding = "real list"

text \<open>
  The metadata dictionary of \<^verbatim>\<open>app.py\<close>, line 144:
  \<^verbatim>\<open>{"document": uf.name, "chunk_index": idx, "text": chunk}\<close>.
\<close>

record metadata =
  md_document :: string
  md_chunk_index :: nat
  md_text :: string

text \<open>A search hit, read by the script as \<^verbatim>\<open>h["score"]\<close> and \<^verbatim>\<open>h["metadata"]\<close>.\<close>

record hit =
  score :: real
  hit_metadata :: metadata

text \<open>
  Modelled from the spec: the class \<^verbatim>\<open>SimpleVectorStore\<close> of the module
  \<^verbatim>\<open>vector_store\<close> is not among the sources. A store entry pairs one embedding with one
  metadata record; entries are kept in insertion order.
\<close>

record store =
  entries :: "(embedding \<times> metadata) list"

definition empty_store :: store where
  "empty_store = \<lparr>entries = []\<rparr>"

subsection \<open>The vector store\<close>

text \<open>
  Modelled from the spec: \<^verbatim>\<open>SimpleVectorStore.add\<close> is not among the sources. It appends
  the pairs positionally and in order, and fails fast with a length-mismatch error when
  the two sequences differ in length. The result is the store after the call together
  with the exception raised, if any.
\<close>

definition add :: "store \<Rightarrow> embedding list \<Rightarrow> metadata list \<Rightarrow> store \<times> exn option" where
  "add s embeddings metadatas =
     (if length embeddings \<noteq> length metadatas
      then (s, Some (StoreError ''length mismatch''))
      else (s\<lparr>entries := entries s @ zip embeddings metadatas\<rparr>, None))"

text \<open>
  Modelled from the spec: \<^verbatim>\<open>SimpleVectorStore.reset\<close> is not among the sources. It
  discards all entries.
\<close>

definition reset :: "store \<Rightarrow> store" where
  "reset s = s\<lparr>entries := []\<rparr>"

definition dot :: "embedding \<Rightarrow> embedding \<Rightarrow> real" where
  "dot a b = sum_list (map (\<lambda>(x, y). x * y) (zip a b))"

definition vec_norm :: "embedding \<Rightarrow> real" where
  "vec_norm a = sqrt (sum_list (map (\<lambda>x. x * x) a))"

text \<open>
  Modelled from the spec: the similarity computed by \<^verbatim>\<open>SimpleVectorStore.search\<close>, which
  is not among the sources: \<^verbatim>\<open>dot(a,b) / (norm(a) * norm(b))\<close> for the query \<open>a\<close> and the
  stored embedding \<open>b\<close>, over the real numbers, with the one special case the spec names:
  a stored embedding of zero norm has similarity zero. The spec names no other special
  case, so any other division by zero is the division error.
\<close>

definition cosine_similarity :: "embedding \<Rightarrow> embedding \<Rightarrow> exn + real" where
  "cosine_similarity a b =
     (if vec_norm b = 0 then Inr 0
      else if vec_norm a * vec_norm b = 0 then Inl ZeroDivisionError
      else Inr (dot a b / (vec_norm a * vec_norm b)))"

text \<open>The scores of a sequence of embeddings; the first exception raised ends the scan.\<close>

fun similarities :: "embedding \<Rightarrow> embedding list \<Rightarrow> exn + real list" where
  "similarities q [] = Inr []"
| "similarities q (e # es) =
     (case cosine_similarity q e of
        Inl err \<Rightarrow> Inl err
      | Inr sc \<Rightarrow> (case similarities q es of
                    Inl err \<Rightarrow> Inl err
                  | Inr scs \<Rightarrow> Inr (sc # scs)))"

text \<open>
  The positions of the entries in rank order: descending score, the sort being stable so
  that equal scores keep their insertion order.
\<close>

definition ranking :: "real list \<Rightarrow> nat list" where
  "ranking scs = map fst (sort_key (\<lambda>(i, sc). - sc) (enumerate 0 scs))"

definition hit_at :: "store \<Rightarrow> real list \<Rightarrow> nat \<Rightarrow> hit" where
  "hit_at s scs i = \<lparr>score = scs ! i, hit_metadata = snd (entries s ! i)\<rparr>"

text \<open>
  Modelled from the spec: \<^verbatim>\<open>SimpleVectorStore.search\<close> is not among the sources. It scores
  every entry, ranks the entries and reports the first \<open>top_k\<close> of them, each as its score
  and its metadata record. The store is not changed.
\<close>

definition search :: "store \<Rightarrow> embedding \<Rightarrow> nat \<Rightarrow> exn + hit list" where
  "search s query_embedding top_k =
     (case similarities query_embedding (map fst (entries s)) of
        Inl err \<Rightarrow> Inl err
      | Inr scs \<Rightarrow> Inr (map (hit_at s scs) (take top_k (ranking scs))))"




subsection \<open>The session script: state, page and collaborators\<close>

record uploaded_file =
  uf_name :: string
  uf_content :: string

text \<open>The document record appended at lines 152 to 157.\<close>

record document =
  doc_name :: string
  doc_length :: nat
  doc_chunks :: nat
  doc_uploaded_at :: string

text \<open>The \<^verbatim>\<open>{"text": ..., "source": ...}\<close> dictionaries handed to the answer generator.\<close>

record context_item =
  ctx_text :: string
  ctx_source :: string

text \<open>
  What a run of the script puts on the page. Style sheets, headers and the loader
  placeholder are static presentation and are left out.
\<close>

datatype element =
    StInfo string
  | StError string
  | StWarning string
  | StSuccess string
  | SidebarSuccess string
  | Dataframe "document list"
  | AnswerBox string
  | SourceBox nat string real string
  | FeatureCard

text \<open>
  \<open>vs\<close> and \<open>documents\<close> are the two entries of \<^verbatim>\<open>st.session_state\<close>; \<open>page\<close> collects the
  elements rendered by the current run, in order.
\<close>

record state =
  vs :: store
  documents :: "document list"
  page :: "element list"

text \<open>
  The functions imported from \<^verbatim>\<open>utils\<close>, the clock and the slider widget are parameters.
  Each function of \<^verbatim>\<open>utils\<close> either returns or raises. \<open>clock\<close> is the formatted reading
  of \<^verbatim>\<open>datetime.now()\<close> taken when the record of a file is appended. \<open>slider\<close> takes the
  minimum, the maximum and the default of \<^verbatim>\<open>st.slider\<close> and yields the value the widget
  holds in this run.
\<close>

record env =
  extract_text_from_uploaded_file :: "uploaded_file \<Rightarrow> exn + (string \<times> string)"
  chunk_text :: "string \<Rightarrow> exn + string list"
  get_embeddings_batch :: "string list \<Rightarrow> string option \<Rightarrow> exn + embedding list"
  generate_answer :: "string \<Rightarrow> context_item list \<Rightarrow> exn + string"
  clock :: "uploaded_file \<Rightarrow> string"
  slider :: "nat \<Rightarrow> nat \<Rightarrow> nat \<Rightarrow> nat"

definition initial_session :: state where
  "initial_session = \<lparr>vs = empty_store, documents = [], page = []\<rparr>"

definition render :: "element \<Rightarrow> state \<Rightarrow> state" where
  "render el s = s\<lparr>page := page s @ [el]\<rparr>"

text \<open>Decimal digits of a number, as an f-string prints it.\<close>

fun str_nat :: "nat \<Rightarrow> string" where
  "str_nat n =
     (if n < 10 then [char_of (48 + n)]
      else str_nat (n div 10) @ [char_of (48 + n mod 10)])"

subsection \<open>Text\<close>

text \<open>
  A string is the sequence of the bytes of its UTF-8 encoding, while \<^verbatim>\<open>len\<close>, slicing and
  \<^verbatim>\<open>strip\<close> of the source work on code points. A code point is one byte that is not a
  continuation byte (\<open>0x80\<close> to \<open>0xBF\<close>), followed by its continuation bytes.
\<close>

definition is_continuation :: "char \<Rightarrow> bool" where
  "is_continuation c \<longleftrightarrow> 128 \<le> (of_char c :: nat) \<and> (of_char c :: nat) < 192"

text \<open>\<^verbatim>\<open>len(text)\<close>: the number of code points.\<close>

definition py_len :: "string \<Rightarrow> nat" where
  "py_len s = length (filter (\<lambda>c. \<not> is_continuation c) s)"

text \<open>\<^verbatim>\<open>text[:n]\<close>: the first \<open>n\<close> code points, all of them when there are fewer.\<close>

fun py_take :: "nat \<Rightarrow> string \<Rightarrow> string" where
  "py_take n [] = []"
| "py_take n (c # cs) =
     (if is_continuation c then c # py_take n cs
      else (case n of 0 \<Rightarrow> [] | Suc m \<Rightarrow> c # py_take m cs))"

text \<open>
  The white space that \<^verbatim>\<open>str.strip()\<close> removes: the code points \<open>U+0009\<close> to \<open>U+000D\<close>,
  \<open>U+001C\<close> to \<open>U+0020\<close>, \<open>U+0085\<close>, \<open>U+00A0\<close>, \<open>U+1680\<close>, \<open>U+2000\<close> to \<open>U+200A\<close>,
  \<open>U+2028\<close>, \<open>U+2029\<close>, \<open>U+202F\<close>, \<open>U+205F\<close> and \<open>U+3000\<close>, by the bytes that encode them.
\<close>

definition ascii_space :: "nat \<Rightarrow> bool" where
  "ascii_space a \<longleftrightarrow> (9 \<le> a \<and> a \<le> 13) \<or> (28 \<le> a \<and> a \<le> 32)"

definition two_byte_space :: "nat \<Rightarrow> nat \<Rightarrow> bool" where
  "two_byte_space a b \<longleftrightarrow> a = 194 \<and> (b = 133 \<or> b = 160)"

definition three_byte_space :: "nat \<Rightarrow> nat \<Rightarrow> nat \<Rightarrow> bool" where
  "three_byte_space a b c \<longleftrightarrow>
     (a = 225 \<and> b = 154 \<and> c = 128) \<or>
     (a = 226 \<and> b = 128 \<and> ((128 \<le> c \<and> c \<le> 138) \<or> c = 168 \<or> c = 169 \<or> c = 175)) \<or>
     (a = 226 \<and> b = 129 \<and> c = 159) \<or>
     (a = 227 \<and> b = 128 \<and> c = 128)"

fun all_space :: "nat list \<Rightarrow> bool" where
  "all_space [] = True"
| "all_space (a # bs) =
     (if ascii_space a then all_space bs
      else (case bs of
              [] \<Rightarrow> False
            | b # cs \<Rightarrow>
                if two_byte_space a b then all_space cs
                else (case cs of
                        [] \<Rightarrow> False
                      | c # ds \<Rightarrow> three_byte_space a b c \<and> all_space ds)))"

subsection \<open>Processing uploaded files (lines 119 to 161)\<close>

text \<open>Line 144: one metadata record per chunk, numbered by \<^verbatim>\<open>enumerate\<close>.\<close>

definition metadatas_of :: "string \<Rightarrow> string list \<Rightarrow> metadata list" where
  "metadatas_of name chunks =
     map (\<lambda>(idx, chunk). \<lparr>md_document = name, md_chunk_index = idx, md_text = chunk\<rparr>)
       (enumerate 0 chunks)"

text \<open>Lines 146 to 158: the insertion, its handler, and the record of the document.\<close>

definition store_chunks ::
  "env \<Rightarrow> uploaded_file \<Rightarrow> string \<Rightarrow> string list \<Rightarrow> embedding list \<Rightarrow> state \<times> nat \<Rightarrow> state \<times> nat"
where
  "store_chunks env uf text chunks embeddings ls =
     (case ls of (s, processed) \<Rightarrow>
        let metadatas = metadatas_of (uf_name uf) chunks in
        (case add (vs s) embeddings metadatas of
           (vs', Some e) \<Rightarrow>
             (render (StError (''Error adding vectors for '' @ uf_name uf @ '': '' @ str_exn e))
                (s\<lparr>vs := vs'\<rparr>), processed)
         | (vs', None) \<Rightarrow>
             (s\<lparr>vs := vs',
                documents := documents s @
                  [\<lparr>doc_name = uf_name uf, doc_length = py_len text,
                    doc_chunks = length chunks, doc_uploaded_at = clock env uf\<rparr>]\<rparr>,
              Suc processed)))"

text \<open>
  The body of the loop over the uploaded files. \<open>Inr\<close> is the loop state with which the
  loop goes on to the next file. \<open>Inl\<close> is an exception that no handler of the body
  catches (only \<^verbatim>\<open>chunk_text\<close> is called outside a \<^verbatim>\<open>try\<close>), with the state of that moment.
\<close>

definition process_file ::
  "env \<Rightarrow> uploaded_file \<Rightarrow> state \<times> nat \<Rightarrow> (exn \<times> state) + (state \<times> nat)"
where
  "process_file env uf ls =
     (case ls of (s0, processed) \<Rightarrow>
        let s = render (StInfo (''Processing '' @ uf_name uf)) s0 in
        (case extract_text_from_uploaded_file env uf of
           Inl e \<Rightarrow>
             Inr (render (StError (''Error extracting text from '' @ uf_name uf @ '': '' @ str_exn e)) s,
                  processed)
         | Inr (text, ftype) \<Rightarrow>
             if text = [] then
               Inr (render (StWarning (''No text found in '' @ uf_name uf)) s, processed)
             else
               (case chunk_text env text of
                  Inl e \<Rightarrow> Inl (e, s)
                | Inr chunks \<Rightarrow>
                    (case get_embeddings_batch env chunks (Some (uf_name uf)) of
                       Inl e \<Rightarrow>
                         Inr (render (StError (''Error generating embeddings for '' @ uf_name uf
                                         @ '': '' @ str_exn e)) s,
                              processed)
                     | Inr embeddings \<Rightarrow>
                         Inr (store_chunks env uf text chunks embeddings (s, processed))))))"

fun process_files ::
  "env \<Rightarrow> uploaded_file list \<Rightarrow> state \<times> nat \<Rightarrow> (exn \<times> state) + (state \<times> nat)"
where
  "process_files env [] ls = Inr ls"
| "process_files env (uf # ufs) ls =
     (case process_file env uf ls of
        Inl crash \<Rightarrow> Inl crash
      | Inr ls' \<Rightarrow> process_files env ufs ls')"

text \<open>Lines 119 to 161, once the button "Process Files" has been pressed.\<close>

definition process_uploads :: "env \<Rightarrow> uploaded_file list \<Rightarrow> state \<Rightarrow> (exn \<times> state) + state" where
  "process_uploads env uploaded_files s =
     (if uploaded_files = [] then Inr s
      else
        (case process_files env uploaded_files (s, 0) of
           Inl crash \<Rightarrow> Inl crash
         | Inr (s', processed) \<Rightarrow>
             Inr (render (StSuccess (''Processed '' @ str_nat processed @ ''/''
                                      @ str_nat (length uploaded_files) @ '' files'')) s')))"

subsection \<open>Answering a question (lines 165 to 215)\<close>

text \<open>\<^verbatim>\<open>not question.strip()\<close>: the question holds nothing but white space.\<close>

definition blank :: "string \<Rightarrow> bool" where
  "blank question \<longleftrightarrow> all_space (map of_char question)"

text \<open>
  Lines 179 to 184: the question is embedded and the store searched; any exception is
  reported and leaves no hits. Indexing an empty batch of embeddings raises as well.
\<close>

definition retrieve :: "env \<Rightarrow> string \<Rightarrow> nat \<Rightarrow> state \<Rightarrow> state \<times> hit list" where
  "retrieve env question top_k s =
     (case get_embeddings_batch env [question] None of
        Inl e \<Rightarrow> (render (StError (''Search error: '' @ str_exn e)) s, [])
      | Inr [] \<Rightarrow> (render (StError (''Search error: '' @ str_exn IndexError)) s, [])
      | Inr (q_emb # _) \<Rightarrow>
          (case search (vs s) q_emb top_k of
             Inl e \<Rightarrow> (render (StError (''Search error: '' @ str_exn e)) s, [])
           | Inr hits \<Rightarrow> (s, hits)))"

definition contexts_of :: "hit list \<Rightarrow> context_item list" where
  "contexts_of hits =
     map (\<lambda>h. \<lparr>ctx_text = md_text (hit_metadata h), ctx_source = md_document (hit_metadata h)\<rparr>) hits"

text \<open>Lines 192 to 197: the answer, or the fixed text put in its place when generation raises.\<close>

definition answer_or_error :: "env \<Rightarrow> string \<Rightarrow> context_item list \<Rightarrow> state \<Rightarrow> state \<times> string" where
  "answer_or_error env question contexts s =
     (case generate_answer env question contexts of
        Inl e \<Rightarrow> (render (StError (''Answer generation error: '' @ str_exn e)) s,
                  ''Error: Unable to generate answer.'')
      | Inr answer \<Rightarrow> (s, answer))"

text \<open>
  Line 213: the first 400 code points, followed by an ellipsis (\<open>U+2026\<close>, three bytes)
  when the text has more.
\<close>

definition preview :: "string \<Rightarrow> string" where
  "preview text_of_chunk =
     py_take 400 text_of_chunk
       @ (if py_len text_of_chunk > 400
          then [char_of (226::nat), char_of (128::nat), char_of (166::nat)]
          else [])"

definition source_box :: "nat \<times> hit \<Rightarrow> element" where
  "source_box ih =
     (case ih of (i, h) \<Rightarrow>
        SourceBox i (md_document (hit_metadata h)) (score h) (preview (md_text (hit_metadata h))))"

text \<open>Lines 174 to 215, once the button "Get Answer" has been pressed.\<close>

definition answer_question :: "env \<Rightarrow> string \<Rightarrow> nat \<Rightarrow> state \<Rightarrow> state" where
  "answer_question env question top_k s =
     (if blank question then render (StWarning ''Please enter a question first.'') s
      else
        (case retrieve env question top_k s of (s1, hits) \<Rightarrow>
           if hits = [] then
             render (StWarning ''No relevant passages found. Please upload documents first.'') s1
           else
             (case answer_or_error env question (contexts_of hits) s1 of (s2, answer) \<Rightarrow>
                foldl (\<lambda>s' ih. render (source_box ih) s') (render (AnswerBox answer) s2)
                  (enumerate 1 hits))))"

text \<open>
  Lines 182 to 215 on their own: what the script does with the outcome of the call of
  \<^verbatim>\<open>vs.search\<close> at line 181, be it an exception or the hits.
\<close>

definition after_search :: "env \<Rightarrow> string \<Rightarrow> exn + hit list \<Rightarrow> state \<Rightarrow> state" where
  "after_search env question found s =
     (case found of
        Inl e \<Rightarrow>
          render (StWarning ''No relevant passages found. Please upload documents first.'')
            (render (StError (''Search error: '' @ str_exn e)) s)
      | Inr hits \<Rightarrow>
          if hits = [] then
            render (StWarning ''No relevant passages found. Please upload documents first.'') s
          else
            (case answer_or_error env question (contexts_of hits) s of (s2, answer) \<Rightarrow>
               foldl (\<lambda>s' ih. render (source_box ih) s') (render (AnswerBox answer) s2)
                 (enumerate 1 hits)))"

subsection \<open>One run of the script\<close>

text \<open>
  Streamlit runs the script from top to bottom after each interaction, and at most one
  button reads as pressed in a run.
\<close>

datatype event =
    ClearAllData
  | ProcessFiles "uploaded_file list"
  | GetAnswer string

text \<open>Lines 77 to 80.\<close>

definition clear_all_data :: "state \<Rightarrow> state" where
  "clear_all_data s =
     render (SidebarSuccess ''Cleared all in-memory data'') (s\<lparr>vs := reset (vs s), documents := []\<rparr>)"

text \<open>
  Lines 165 to 228: with documents, the table and the question form, whose button is
  pressed when \<open>asked\<close> holds the question; without documents, the help card (the message
  opens with an emoji of four bytes).
\<close>

definition main_view :: "env \<Rightarrow> string option \<Rightarrow> state \<Rightarrow> state" where
  "main_view env asked s =
     (if documents s \<noteq> [] then
        (let s1 = render (Dataframe (documents s)) s;
             top_k = slider env 1 10 4
         in case asked of
              None \<Rightarrow> s1
            | Some question \<Rightarrow> answer_question env question top_k s1)
      else
        render (StInfo ([char_of (240::nat), char_of (159::nat), char_of (145::nat), char_of (134::nat)]
                        @ '' Start by uploading your documents above!''))
          (render FeatureCard s))"

definition rerun :: "env \<Rightarrow> event \<Rightarrow> state \<Rightarrow> (exn \<times> state) + state" where
  "rerun env ev s0 =
     (let s = s0\<lparr>page := []\<rparr> in
      case ev of
        ClearAllData \<Rightarrow> Inr (main_view env None (clear_all_data s))
      | ProcessFiles uploaded_files \<Rightarrow>
          (case process_uploads env uploaded_files s of
             Inl crash \<Rightarrow> Inl crash
           | Inr s' \<Rightarrow> Inr (main_view env None s'))
      | GetAnswer question \<Rightarrow> Inr (main_view env (Some question) s))"

text \<open>
  The session state and the store agree when the store holds, for each document record in
  order, exactly as many entries as the record counts chunks, tagged with the name of the
  document and numbered from zero.
\<close>

definition tags_of_document :: "document \<Rightarrow> (string \<times> nat) list" where
  "tags_of_document d = map (\<lambda>i. (doc_name d, i)) [0..<doc_chunks d]"

definition consistent :: "state \<Rightarrow> bool" where
  "consistent s \<longleftrightarrow>
     map (\<lambda>(e, m). (md_document m, md_chunk_index m)) (entries (vs s))
       = concat (map tags_of_document (documents s))"

text \<open>The contract of the slider widget: the value it holds lies between its bounds.\<close>

definition slider_in_range :: "env \<Rightarrow> bool" where
  "slider_in_range env \<longleftrightarrow>
     (\<forall>lo hi dflt. lo \<le> dflt \<and> dflt \<le> hi \<longrightarrow> lo \<le> slider env lo hi dflt \<and> slider env lo hi dflt \<le> hi)"

text \<open>The session state a run leaves behind, whether it ended normally or by an exception.\<close>

definition state_after :: "(exn \<times> state) + state \<Rightarrow> state" where
  "state_after r = (case r of Inl (e, s) \<Rightarrow> s | Inr s \<Rightarrow> s)"

text \<open>A session: one run after another, each with the environment it meets.\<close>

fun runs :: "(env \<times> event) list \<Rightarrow> state \<Rightarrow> state" where
  "runs [] s = s"
| "runs ((env, ev) # rest) s = runs rest (state_after (rerun env ev s))"

subsection \<open>Sample data\<close>

definition sample_metadata :: "nat \<Rightarrow> metadata" where
  "sample_metadata i = \<lparr>md_document = ''notes.txt'', md_chunk_index = i, md_text = ''chunk''\<rparr>"

text \<open>The example of the spec: embeddings \<open>[1,0]\<close>, \<open>[0,1]\<close>, \<open>[1,0]\<close>, inserted in that order.\<close>

definition sample_store :: store where
  "sample_store =
     \<lparr>entries = [([1, 0], sample_metadata 0), ([0, 1], sample_metadata 1), ([1, 0], sample_metadata 2)]\<rparr>"


text \<open>An environment in which one file fails in each of the ways the script handles.\<close>

definition sample_env :: env where
  "sample_env =
     \<lparr>extract_text_from_uploaded_file =
        (\<lambda>uf. if uf_name uf = ''scan.pdf'' then Inl (Raised ''no text layer'')
              else Inr (uf_content uf, ''txt'')),
      chunk_text = (\<lambda>body. Inr [body]),
      get_embeddings_batch =
        (\<lambda>texts doc. if doc = Some ''big.txt'' then Inl (Raised ''quota exceeded'')
                     else if doc = Some ''odd.txt'' then Inr []
                     else Inr (map (\<lambda>t. [1, 0]) texts)),
      generate_answer = (\<lambda>question contexts. Inl (Raised ''timeout'')),
      clock = (\<lambda>uf. ''2024-01-01 09:00''),
      slider = (\<lambda>lo hi dflt. dflt)\<rparr>"

definition sample_file :: "string \<Rightarrow> string \<Rightarrow> uploaded_file" where
  "sample_file name content = \<lparr>uf_name = name, uf_content = content\<rparr>"

definition sample_session :: state where
  "sample_session =
     \<lparr>vs = sample_store,
      documents = [\<lparr>doc_name = ''notes.txt'', doc_length = 15, doc_chunks = 3,
                    doc_uploaded_at = ''2024-01-01 09:00''\<rparr>],
      page = []\<rparr>"

section \<open>Properties of the vector store\<close>

subsection \<open>Scores and ranking\<close>





















subsection \<open>Size of the result\<close>




subsection \<open>Order of the result\<close>




subsection \<open>Stored embeddings of zero norm\<close>




section \<open>Properties of the session script\<close>

subsection \<open>The loop body, case by case\<close>

lemma page_render: "page (render el s) = page s @ [el]"
  and vs_render: "vs (render el s) = vs s"
  and documents_render: "documents (render el s) = documents s"
  by (simp_all add: render_def)

lemma metadatas_of_length: "length (metadatas_of name chunks) = length chunks"
  by (simp add: metadatas_of_def)

lemma metadatas_of_nth:
  "i < length chunks \<Longrightarrow>
   metadatas_of name chunks ! i = \<lparr>md_document = name, md_chunk_index = i, md_text = chunks ! i\<rparr>"
  by (simp add: metadatas_of_def nth_enumerate_eq)

lemma add_mismatch:
  "length embeddings \<noteq> length metadatas \<Longrightarrow>
   add s embeddings metadatas = (s, Some (StoreError ''length mismatch''))"
  by (simp add: add_def)

lemma add_match:
  "length embeddings = length metadatas \<Longrightarrow>
   add s embeddings metadatas = (s\<lparr>entries := entries s @ zip embeddings metadatas\<rparr>, None)"
  by (simp add: add_def)

lemma process_file_extract_raises:
  "extract_text_from_uploaded_file env uf = Inl e \<Longrightarrow>
   process_file env uf (s, n) =
     Inr (render (StError (''Error extracting text from '' @ uf_name uf @ '': '' @ str_exn e))
            (render (StInfo (''Processing '' @ uf_name uf)) s), n)"
  by (simp add: process_file_def)

lemma process_file_no_text:
  "extract_text_from_uploaded_file env uf = Inr ([], ftype) \<Longrightarrow>
   process_file env uf (s, n) =
     Inr (render (StWarning (''No text found in '' @ uf_name uf))
            (render (StInfo (''Processing '' @ uf_name uf)) s), n)"
  by (simp add: process_file_def)

lemma process_file_chunk_raises:
  "extract_text_from_uploaded_file env uf = Inr (text, ftype) \<Longrightarrow> text \<noteq> [] \<Longrightarrow>
   chunk_text env text = Inl e \<Longrightarrow>
   process_file env uf (s, n) = Inl (e, render (StInfo (''Processing '' @ uf_name uf)) s)"
  by (simp add: process_file_def)

lemma process_file_embed_raises:
  "extract_text_from_uploaded_file env uf = Inr (text, ftype) \<Longrightarrow> text \<noteq> [] \<Longrightarrow>
   chunk_text env text = Inr chunks \<Longrightarrow>
   get_embeddings_batch env chunks (Some (uf_name uf)) = Inl e \<Longrightarrow>
   process_file env uf (s, n) =
     Inr (render (StError (''Error generating embeddings for '' @ uf_name uf @ '': '' @ str_exn e))
            (render (StInfo (''Processing '' @ uf_name uf)) s), n)"
  by (simp add: process_file_def)

lemma process_file_add_raises:
  "extract_text_from_uploaded_file env uf = Inr (text, ftype) \<Longrightarrow> text \<noteq> [] \<Longrightarrow>
   chunk_text env text = Inr chunks \<Longrightarrow>
   get_embeddings_batch env chunks (Some (uf_name uf)) = Inr embeddings \<Longrightarrow>
   add (vs s) embeddings (metadatas_of (uf_name uf) chunks) = (vs', Some e) \<Longrightarrow>
   process_file env uf (s, n) =
     Inr (render (StError (''Error adding vectors for '' @ uf_name uf @ '': '' @ str_exn e))
            (render (StInfo (''Processing '' @ uf_name uf)) (s\<lparr>vs := vs'\<rparr>)), n)"
  by (simp add: process_file_def store_chunks_def render_def)

lemma process_file_stored:
  "extract_text_from_uploaded_file env uf = Inr (text, ftype) \<Longrightarrow> text \<noteq> [] \<Longrightarrow>
   chunk_text env text = Inr chunks \<Longrightarrow>
   get_embeddings_batch env chunks (Some (uf_name uf)) = Inr embeddings \<Longrightarrow>
   add (vs s) embeddings (metadatas_of (uf_name uf) chunks) = (vs', None) \<Longrightarrow>
   process_file env uf (s, n) =
     Inr (render (StInfo (''Processing '' @ uf_name uf))
            (s\<lparr>vs := vs',
               documents := documents s @
                 [\<lparr>doc_name = uf_name uf, doc_length = py_len text,
                   doc_chunks = length chunks, doc_uploaded_at = clock env uf\<rparr>]\<rparr>), Suc n)"
  by (simp add: process_file_def store_chunks_def render_def)

text \<open>Every run of the loop body is one of the six above.\<close>

lemma process_file_cases:
  obtains
    (extract_raises) e where "extract_text_from_uploaded_file env uf = Inl e"
  | (no_text) ftype where "extract_text_from_uploaded_file env uf = Inr ([], ftype)"
  | (chunk_raises) body ftype e where
      "extract_text_from_uploaded_file env uf = Inr (body, ftype)" "body \<noteq> []"
      "chunk_text env body = Inl e"
  | (embed_raises) body ftype chunks e where
      "extract_text_from_uploaded_file env uf = Inr (body, ftype)" "body \<noteq> []"
      "chunk_text env body = Inr chunks"
      "get_embeddings_batch env chunks (Some (uf_name uf)) = Inl e"
  | (add_raises) body ftype chunks embeddings where
      "extract_text_from_uploaded_file env uf = Inr (body, ftype)" "body \<noteq> []"
      "chunk_text env body = Inr chunks"
      "get_embeddings_batch env chunks (Some (uf_name uf)) = Inr embeddings"
      "length embeddings \<noteq> length chunks"
  | (stored) body ftype chunks embeddings where
      "extract_text_from_uploaded_file env uf = Inr (body, ftype)" "body \<noteq> []"
      "chunk_text env body = Inr chunks"
      "get_embeddings_batch env chunks (Some (uf_name uf)) = Inr embeddings"
      "length embeddings = length chunks"
proof (cases "extract_text_from_uploaded_file env uf")
  case (Inl e)
  then show ?thesis by (rule extract_raises)
next
  case (Inr r)
  obtain body ftype where r: "r = (body, ftype)" by (cases r)
  show ?thesis
  proof (cases "body = []")
    case True
    with Inr r show ?thesis by (auto intro: no_text)
  next
    case False
    show ?thesis
    proof (cases "chunk_text env body")
      case (Inl e)
      with Inr r False show ?thesis by (auto intro: chunk_raises)
    next
      case chunks: (Inr chunks)
      show ?thesis
      proof (cases "get_embeddings_batch env chunks (Some (uf_name uf))")
        case (Inl e)
        with Inr r False chunks show ?thesis by (auto intro: embed_raises)
      next
        case embs: (Inr embeddings)
        show ?thesis
        proof (cases "length embeddings = length chunks")
          case True
          with Inr r False chunks embs show ?thesis by (auto intro: stored)
        next
          case neq: False
          with Inr r False chunks embs show ?thesis by (auto intro: add_raises)
        qed
      qed
    qed
  qed
qed


lemma consistent_cong:
  "vs s' = vs s \<Longrightarrow> documents s' = documents s \<Longrightarrow> consistent s' = consistent s"
  by (simp add: consistent_def)

lemma tags_of_new_entries:
  assumes "length embeddings = length chunks"
  shows "map (\<lambda>(e, m). (md_document m, md_chunk_index m)) (zip embeddings (metadatas_of name chunks))
           = map (\<lambda>i. (name, i)) [0..<length chunks]"
proof (rule nth_equalityI)
  show "length (map (\<lambda>(e, m). (md_document m, md_chunk_index m))
                  (zip embeddings (metadatas_of name chunks)))
          = length (map (\<lambda>i. (name, i)) [0..<length chunks])"
    using assms by (simp add: metadatas_of_length)
next
  fix i
  assume "i < length (map (\<lambda>(e, m). (md_document m, md_chunk_index m))
                        (zip embeddings (metadatas_of name chunks)))"
  then have i: "i < length chunks"
    using assms by (simp add: metadatas_of_length)
  then show "map (\<lambda>(e, m). (md_document m, md_chunk_index m))
               (zip embeddings (metadatas_of name chunks)) ! i
             = map (\<lambda>i. (name, i)) [0..<length chunks] ! i"
    using assms by (simp add: metadatas_of_length metadatas_of_nth)
qed

lemma process_file_consistent:
  assumes "consistent s"
  shows "case process_file env uf (s, n) of
           Inl (e, s') \<Rightarrow> consistent s'
         | Inr (s', n') \<Rightarrow> consistent s'"
proof (cases rule: process_file_cases [of env uf])
  case (extract_raises e)
  then show ?thesis
    using assms by (simp add: process_file_extract_raises consistent_def vs_render documents_render)
next
  case (no_text ftype)
  then show ?thesis
    using assms by (simp add: process_file_no_text consistent_def vs_render documents_render)
next
  case (chunk_raises body ftype e)
  then show ?thesis
    using assms by (simp add: process_file_chunk_raises consistent_def vs_render documents_render)
next
  case (embed_raises body ftype chunks e)
  then show ?thesis
    using assms by (simp add: process_file_embed_raises consistent_def vs_render documents_render)
next
  case (add_raises body ftype chunks embeddings)
  then have "add (vs s) embeddings (metadatas_of (uf_name uf) chunks)
               = (vs s, Some (StoreError ''length mismatch''))"
    by (simp add: add_mismatch metadatas_of_length)
  with add_raises show ?thesis
    using assms by (simp add: process_file_add_raises consistent_def vs_render documents_render)
next
  case (stored body ftype chunks embeddings)
  then have "add (vs s) embeddings (metadatas_of (uf_name uf) chunks)
               = ((vs s)\<lparr>entries := entries (vs s) @ zip embeddings (metadatas_of (uf_name uf) chunks)\<rparr>, None)"
    by (simp add: add_match metadatas_of_length)
  with stored show ?thesis
    using assms
    by (simp add: process_file_stored consistent_def vs_render documents_render
        tags_of_new_entries tags_of_document_def)
qed

lemma process_files_consistent:
  "consistent (fst ls) \<Longrightarrow>
   (case process_files env ufs ls of
      Inl (e, s') \<Rightarrow> consistent s'
    | Inr (s', n') \<Rightarrow> consistent s')"
proof (induction ufs arbitrary: ls)
  case Nil
  then show ?case by (cases ls) simp
next
  case (Cons uf ufs)
  obtain s n where ls: "ls = (s, n)" by (cases ls)
  with Cons.prems have "consistent s" by simp
  note step = process_file_consistent [OF this, of env uf n]
  show ?case
  proof (cases "process_file env uf (s, n)")
    case (Inl crash)
    with step show ?thesis by (simp add: ls)
  next
    case (Inr ls')
    with step have "consistent (fst ls')" by (cases ls') simp
    then show ?thesis
      using Cons.IH [of ls'] Inr by (simp add: ls)
  qed
qed


lemma foldl_render:
  "page (foldl (\<lambda>s' x. render (f x) s') s xs) = page s @ map f xs \<and>
   vs (foldl (\<lambda>s' x. render (f x) s') s xs) = vs s \<and>
   documents (foldl (\<lambda>s' x. render (f x) s') s xs) = documents s"
  by (induction xs arbitrary: s) (simp_all add: render_def)

lemma retrieve_frame:
  "retrieve env question top_k s = (s1, hits) \<Longrightarrow> vs s1 = vs s \<and> documents s1 = documents s"
  by (auto simp: retrieve_def render_def split: sum.splits list.splits)

lemma answer_or_error_frame:
  "answer_or_error env question contexts s = (s2, answer) \<Longrightarrow>
   vs s2 = vs s \<and> documents s2 = documents s"
  by (auto simp: answer_or_error_def render_def split: sum.splits)

lemma answer_question_frame:
  "vs (answer_question env question top_k s) = vs s \<and>
   documents (answer_question env question top_k s) = documents s"
proof -
  obtain s1 hits where r: "retrieve env question top_k s = (s1, hits)"
    by (cases "retrieve env question top_k s")
  obtain s2 answer where a: "answer_or_error env question (contexts_of hits) s1 = (s2, answer)"
    by (cases "answer_or_error env question (contexts_of hits) s1")
  from retrieve_frame [OF r] answer_or_error_frame [OF a] r a show ?thesis
    by (simp add: answer_question_def foldl_render vs_render documents_render)
qed

lemma main_view_frame:
  "vs (main_view env asked s) = vs s \<and> documents (main_view env asked s) = documents s"
  by (cases asked)
     (simp_all add: main_view_def Let_def answer_question_frame vs_render documents_render)

lemma process_uploads_consistent:
  assumes "consistent s"
  shows "consistent (state_after (process_uploads env ufs s))"
proof (cases "ufs = []")
  case True
  with assms show ?thesis by (simp add: process_uploads_def state_after_def)
next
  case False
  from assms have "consistent (fst (s, 0::nat))" by simp
  from process_files_consistent [OF this, of env ufs] False show ?thesis
    by (auto simp: process_uploads_def state_after_def consistent_def vs_render documents_render
             split: sum.splits prod.splits)
qed

lemma rerun_consistent:
  assumes "consistent s"
  shows "consistent (state_after (rerun env ev s))"
proof (cases ev)
  case ClearAllData
  then show ?thesis
    by (simp add: rerun_def state_after_def consistent_def main_view_frame clear_all_data_def
        vs_render documents_render reset_def)
next
  case (ProcessFiles ufs)
  from assms have "consistent (s\<lparr>page := []\<rparr>)"
    by (simp add: consistent_def)
  from process_uploads_consistent [OF this, of env ufs] ProcessFiles show ?thesis
    by (auto simp: rerun_def state_after_def consistent_def main_view_frame split: sum.splits)
next
  case (GetAnswer question)
  with assms show ?thesis
    by (simp add: rerun_def state_after_def consistent_def main_view_frame)
qed

lemma runs_consistent: "consistent s \<Longrightarrow> consistent (runs steps s)"
proof (induction steps arbitrary: s)
  case Nil
  then show ?case by simp
next
  case (Cons step steps)
  obtain env ev where "step = (env, ev)" by (cases step)
  with Cons show ?case by (simp add: rerun_consistent)
qed

lemma consistent_initial: "consistent initial_session"
  by (simp add: consistent_def initial_session_def empty_store_def)

lemma process_files_step:
  "process_file env uf ls = Inr ls' \<Longrightarrow> process_files env (uf # ufs) ls = process_files env ufs ls'"
  by simp

lemma process_file_page:
  assumes "process_file env uf (s, n) = Inr (s', n')"
  shows "set (page s) \<subseteq> set (page s') \<and> StInfo (''Processing '' @ uf_name uf) \<in> set (page s')"
proof (cases rule: process_file_cases [of env uf])
  case (extract_raises e)
  with assms show ?thesis by (auto simp: process_file_extract_raises page_render)
next
  case (no_text ftype)
  with assms show ?thesis by (auto simp: process_file_no_text page_render)
next
  case (chunk_raises body ftype e)
  with assms show ?thesis by (simp add: process_file_chunk_raises)
next
  case (embed_raises body ftype chunks e)
  with assms show ?thesis by (auto simp: process_file_embed_raises page_render)
next
  case (add_raises body ftype chunks embeddings)
  then have "add (vs s) embeddings (metadatas_of (uf_name uf) chunks)
               = (vs s, Some (StoreError ''length mismatch''))"
    by (simp add: add_mismatch metadatas_of_length)
  with add_raises assms show ?thesis
    by (auto simp: process_file_add_raises page_render)
next
  case (stored body ftype chunks embeddings)
  then have "add (vs s) embeddings (metadatas_of (uf_name uf) chunks)
               = ((vs s)\<lparr>entries := entries (vs s) @ zip embeddings (metadatas_of (uf_name uf) chunks)\<rparr>, None)"
    by (simp add: add_match metadatas_of_length)
  with stored assms show ?thesis
    by (auto simp: process_file_stored page_render)
qed

lemma process_file_returns:
  assumes "\<forall>body. \<exists>chunks. chunk_text env body = Inr chunks"
  shows "\<exists>s' n'. process_file env uf (s, n) = Inr (s', n')"
proof (cases "process_file env uf (s, n)")
  case (Inl crash)
  then obtain body e where "chunk_text env body = Inl e"
    by (auto simp: process_file_def Let_def split: sum.splits prod.splits if_splits)
  moreover from assms obtain chunks where "chunk_text env body = Inr chunks"
    by blast
  ultimately show ?thesis by simp
next
  case (Inr ls')
  then show ?thesis by (cases ls') simp
qed

lemma process_files_all_started:
  assumes "\<forall>body. \<exists>chunks. chunk_text env body = Inr chunks"
  shows "\<exists>s' n'. process_files env ufs (s, n) = Inr (s', n') \<and> set (page s) \<subseteq> set (page s') \<and>
           (\<forall>uf\<in>set ufs. StInfo (''Processing '' @ uf_name uf) \<in> set (page s'))"
proof (induction ufs arbitrary: s n)
  case Nil
  show ?case by simp
next
  case (Cons uf ufs)
  from process_file_returns [OF assms] obtain s1 n1 where
    step: "process_file env uf (s, n) = Inr (s1, n1)" by blast
  from Cons.IH [of s1 n1] obtain s' n' where
    rest: "process_files env ufs (s1, n1) = Inr (s', n')" "set (page s1) \<subseteq> set (page s')"
      "\<forall>uf\<in>set ufs. StInfo (''Processing '' @ uf_name uf) \<in> set (page s')"
    by blast
  from process_file_page [OF step] rest step show ?case
    by auto
qed

subsection \<open>Length mismatch in an insertion\<close>

text \<open>
  Claim C4. For every store, \<open>add\<close> called with sequences of different lengths fails at
  once with the store error "length mismatch" and leaves the store as it was: nothing is
  zipped in part. During an upload, where the embedder returns a number of embeddings
  other than the number of chunks, the failure is reported for that file, the session is
  left as it was, and the loop goes on with the next file.
\<close>

theorem add_length_mismatch:
  "(length embeddings \<noteq> length metadatas \<longrightarrow>
      add st embeddings metadatas = (st, Some (StoreError ''length mismatch''))) \<and>
   (extract_text_from_uploaded_file env uf = Inr (body, ftype) \<and> body \<noteq> [] \<and>
    chunk_text env body = Inr chunks \<and>
    get_embeddings_batch env chunks (Some (uf_name uf)) = Inr embs \<and>
    length embs \<noteq> length chunks \<longrightarrow>
      process_file env uf (s, n) =
        Inr (render (StError (''Error adding vectors for '' @ uf_name uf @ '': length mismatch''))
               (render (StInfo (''Processing '' @ uf_name uf)) s), n) \<and>
      process_files env (uf # ufs) (s, n) =
        process_files env ufs
          (render (StError (''Error adding vectors for '' @ uf_name uf @ '': length mismatch''))
             (render (StInfo (''Processing '' @ uf_name uf)) s), n))"
proof (intro conjI impI)
  assume "length embeddings \<noteq> length metadatas"
  then show "add st embeddings metadatas = (st, Some (StoreError ''length mismatch''))"
    by (rule add_mismatch)
next
  assume a: "extract_text_from_uploaded_file env uf = Inr (body, ftype) \<and> body \<noteq> [] \<and>
    chunk_text env body = Inr chunks \<and>
    get_embeddings_batch env chunks (Some (uf_name uf)) = Inr embs \<and>
    length embs \<noteq> length chunks"
  then have "add (vs s) embs (metadatas_of (uf_name uf) chunks)
               = (vs s, Some (StoreError ''length mismatch''))"
    by (simp add: add_mismatch metadatas_of_length)
  with a show step: "process_file env uf (s, n) =
        Inr (render (StError (''Error adding vectors for '' @ uf_name uf @ '': length mismatch''))
               (render (StInfo (''Processing '' @ uf_name uf)) s), n)"
    by (simp add: process_file_add_raises)
  then show "process_files env (uf # ufs) (s, n) =
        process_files env ufs
          (render (StError (''Error adding vectors for '' @ uf_name uf @ '': length mismatch''))
             (render (StInfo (''Processing '' @ uf_name uf)) s), n)"
    by (rule process_files_step)
qed

theorem add_length_mismatch_witness:
  "length [[1, 0::real]] \<noteq> length ([]::metadata list) \<and>
   add sample_store [[1, 0]] [] = (sample_store, Some (StoreError ''length mismatch'')) \<and>
   process_file sample_env (sample_file ''odd.txt'' ''abc'') (initial_session, 0) =
     Inr (render (StError ''Error adding vectors for odd.txt: length mismatch'')
            (render (StInfo ''Processing odd.txt'') initial_session), 0)"
  using add_length_mismatch [where embeddings = "[[1, 0]]" and metadatas = "[]"
      and st = sample_store and env = sample_env and uf = "sample_file ''odd.txt'' ''abc''"
      and body = "''abc''" and ftype = "''txt''" and chunks = "[''abc'']" and embs = "[]"
      and s = initial_session and n = 0 and ufs = "[]"]
  by (simp add: sample_env_def sample_file_def)

subsection \<open>Failures of one file\<close>

text \<open>
  Claim C5. When the extraction, the embedding or the insertion of one file raises, the
  handler of that step reports the exception on the page and the loop goes on with the
  remaining files from the state it had, with no document recorded and the count of
  processed files unchanged. So when chunking raises nothing, the loop reaches the end of
  every batch, and every file of the batch has been started.
\<close>

theorem failures_are_caught_per_file:
  "(extract_text_from_uploaded_file env uf = Inl e \<longrightarrow>
      process_files env (uf # ufs) (s, n) =
        process_files env ufs
          (render (StError (''Error extracting text from '' @ uf_name uf @ '': '' @ str_exn e))
             (render (StInfo (''Processing '' @ uf_name uf)) s), n)) \<and>
   (extract_text_from_uploaded_file env uf = Inr (body, ftype) \<and> body \<noteq> [] \<and>
    chunk_text env body = Inr chunks \<and>
    get_embeddings_batch env chunks (Some (uf_name uf)) = Inl e \<longrightarrow>
      process_files env (uf # ufs) (s, n) =
        process_files env ufs
          (render (StError (''Error generating embeddings for '' @ uf_name uf @ '': '' @ str_exn e))
             (render (StInfo (''Processing '' @ uf_name uf)) s), n)) \<and>
   (extract_text_from_uploaded_file env uf = Inr (body, ftype) \<and> body \<noteq> [] \<and>
    chunk_text env body = Inr chunks \<and>
    get_embeddings_batch env chunks (Some (uf_name uf)) = Inr embeddings \<and>
    add (vs s) embeddings (metadatas_of (uf_name uf) chunks) = (vs', Some e) \<longrightarrow>
      process_files env (uf # ufs) (s, n) =
        process_files env ufs
          (render (StError (''Error adding vectors for '' @ uf_name uf @ '': '' @ str_exn e))
             (render (StInfo (''Processing '' @ uf_name uf)) (s\<lparr>vs := vs'\<rparr>)), n)) \<and>
   ((\<forall>body. \<exists>chunks. chunk_text env body = Inr chunks) \<longrightarrow>
      (\<exists>s' n'. process_files env ufs (s, n) = Inr (s', n') \<and>
         (\<forall>uf\<in>set ufs. StInfo (''Processing '' @ uf_name uf) \<in> set (page s'))))"
proof (intro conjI impI)
  assume "extract_text_from_uploaded_file env uf = Inl e"
  then show "process_files env (uf # ufs) (s, n) =
        process_files env ufs
          (render (StError (''Error extracting text from '' @ uf_name uf @ '': '' @ str_exn e))
             (render (StInfo (''Processing '' @ uf_name uf)) s), n)"
    by (simp add: process_file_extract_raises)
next
  assume "extract_text_from_uploaded_file env uf = Inr (body, ftype) \<and> body \<noteq> [] \<and>
    chunk_text env body = Inr chunks \<and>
    get_embeddings_batch env chunks (Some (uf_name uf)) = Inl e"
  then show "process_files env (uf # ufs) (s, n) =
        process_files env ufs
          (render (StError (''Error generating embeddings for '' @ uf_name uf @ '': '' @ str_exn e))
             (render (StInfo (''Processing '' @ uf_name uf)) s), n)"
    by (simp add: process_file_embed_raises)
next
  assume "extract_text_from_uploaded_file env uf = Inr (body, ftype) \<and> body \<noteq> [] \<and>
    chunk_text env body = Inr chunks \<and>
    get_embeddings_batch env chunks (Some (uf_name uf)) = Inr embeddings \<and>
    add (vs s) embeddings (metadatas_of (uf_name uf) chunks) = (vs', Some e)"
  then show "process_files env (uf # ufs) (s, n) =
        process_files env ufs
          (render (StError (''Error adding vectors for '' @ uf_name uf @ '': '' @ str_exn e))
             (render (StInfo (''Processing '' @ uf_name uf)) (s\<lparr>vs := vs'\<rparr>)), n)"
    by (simp add: process_file_add_raises)
next
  assume "\<forall>body. \<exists>chunks. chunk_text env body = Inr chunks"
  from process_files_all_started [OF this, of ufs s n]
  show "\<exists>s' n'. process_files env ufs (s, n) = Inr (s', n') \<and>
         (\<forall>uf\<in>set ufs. StInfo (''Processing '' @ uf_name uf) \<in> set (page s'))"
    by blast
qed

theorem failures_are_caught_per_file_witness:
  "process_files sample_env [sample_file ''scan.pdf'' ''abc'', sample_file ''notes.txt'' ''abc'']
       (initial_session, 0) =
     process_files sample_env [sample_file ''notes.txt'' ''abc'']
       (render (StError ''Error extracting text from scan.pdf: no text layer'')
          (render (StInfo ''Processing scan.pdf'') initial_session), 0) \<and>
   process_files sample_env [sample_file ''big.txt'' ''abc'', sample_file ''notes.txt'' ''abc'']
       (initial_session, 0) =
     process_files sample_env [sample_file ''notes.txt'' ''abc'']
       (render (StError ''Error generating embeddings for big.txt: quota exceeded'')
          (render (StInfo ''Processing big.txt'') initial_session), 0) \<and>
   process_files sample_env [sample_file ''odd.txt'' ''abc'', sample_file ''notes.txt'' ''abc'']
       (initial_session, 0) =
     process_files sample_env [sample_file ''notes.txt'' ''abc'']
       (render (StError ''Error adding vectors for odd.txt: length mismatch'')
          (render (StInfo ''Processing odd.txt'') initial_session), 0) \<and>
   (\<exists>s' n'. process_files sample_env
               [sample_file ''scan.pdf'' ''abc'', sample_file ''notes.txt'' ''abc'']
               (initial_session, 0) = Inr (s', n') \<and>
            StInfo ''Processing notes.txt'' \<in> set (page s'))"
proof -
  note inst = failures_are_caught_per_file [where env = sample_env and s = initial_session and n = 0]
  have 1: "process_files sample_env [sample_file ''scan.pdf'' ''abc'', sample_file ''notes.txt'' ''abc'']
       (initial_session, 0) =
     process_files sample_env [sample_file ''notes.txt'' ''abc'']
       (render (StError ''Error extracting text from scan.pdf: no text layer'')
          (render (StInfo ''Processing scan.pdf'') initial_session), 0)"
    using inst [where uf = "sample_file ''scan.pdf'' ''abc''" and e = "Raised ''no text layer''"
        and ufs = "[sample_file ''notes.txt'' ''abc'']"]
    by (simp add: sample_env_def sample_file_def)
  have 2: "process_files sample_env [sample_file ''big.txt'' ''abc'', sample_file ''notes.txt'' ''abc'']
       (initial_session, 0) =
     process_files sample_env [sample_file ''notes.txt'' ''abc'']
       (render (StError ''Error generating embeddings for big.txt: quota exceeded'')
          (render (StInfo ''Processing big.txt'') initial_session), 0)"
    using inst [where uf = "sample_file ''big.txt'' ''abc''" and e = "Raised ''quota exceeded''"
        and body = "''abc''" and ftype = "''txt''" and chunks = "[''abc'']"
        and ufs = "[sample_file ''notes.txt'' ''abc'']"]
    by (simp add: sample_env_def sample_file_def)
  have 3: "process_files sample_env [sample_file ''odd.txt'' ''abc'', sample_file ''notes.txt'' ''abc'']
       (initial_session, 0) =
     process_files sample_env [sample_file ''notes.txt'' ''abc'']
       (render (StError ''Error adding vectors for odd.txt: length mismatch'')
          (render (StInfo ''Processing odd.txt'') initial_session), 0)"
    using inst [where uf = "sample_file ''odd.txt'' ''abc''" and e = "StoreError ''length mismatch''"
        and body = "''abc''" and ftype = "''txt''" and chunks = "[''abc'']" and embeddings = "[]"
        and vs' = "vs initial_session"
        and ufs = "[sample_file ''notes.txt'' ''abc'']"]
    by (simp add: sample_env_def sample_file_def add_def metadatas_of_def)
  have 4: "\<exists>s' n'. process_files sample_env
               [sample_file ''scan.pdf'' ''abc'', sample_file ''notes.txt'' ''abc'']
               (initial_session, 0) = Inr (s', n') \<and>
            StInfo ''Processing notes.txt'' \<in> set (page s')"
  proof -
    have "\<forall>body. \<exists>chunks. chunk_text sample_env body = Inr chunks"
      by (simp add: sample_env_def)
    with inst [where ufs = "[sample_file ''scan.pdf'' ''abc'', sample_file ''notes.txt'' ''abc'']"]
    have "\<exists>s' n'. process_files sample_env
               [sample_file ''scan.pdf'' ''abc'', sample_file ''notes.txt'' ''abc'']
               (initial_session, 0) = Inr (s', n') \<and>
            (\<forall>uf\<in>set [sample_file ''scan.pdf'' ''abc'', sample_file ''notes.txt'' ''abc''].
                StInfo (''Processing '' @ uf_name uf) \<in> set (page s'))"
      by blast
    then show ?thesis
      by (auto simp: sample_file_def)
  qed
  from 1 2 3 4 show ?thesis by blast
qed

subsection \<open>Metadata of the stored chunks\<close>

text \<open>
  Claim C6. For every file that is processed successfully (the file that the loop counts
  as processed), the store gains one entry per chunk, after the entries it had, and the
  entry of the \<open>i\<close>-th chunk pairs the \<open>i\<close>-th embedding with the metadata record holding
  the name of the file, the index \<open>i\<close> (counted from zero) and the text of the chunk.
\<close>

theorem stored_metadata:
  assumes "process_file env uf (s, n) = Inr (s', Suc n)"
  shows "\<exists>body ftype chunks embeddings.
           extract_text_from_uploaded_file env uf = Inr (body, ftype) \<and>
           chunk_text env body = Inr chunks \<and>
           get_embeddings_batch env chunks (Some (uf_name uf)) = Inr embeddings \<and>
           length embeddings = length chunks \<and>
           length (entries (vs s')) = length (entries (vs s)) + length chunks \<and>
           take (length (entries (vs s))) (entries (vs s')) = entries (vs s) \<and>
           (\<forall>i<length chunks.
              entries (vs s') ! (length (entries (vs s)) + i) =
                (embeddings ! i,
                 \<lparr>md_document = uf_name uf, md_chunk_index = i, md_text = chunks ! i\<rparr>))"
proof (cases rule: process_file_cases [of env uf])
  case (extract_raises e)
  with assms show ?thesis by (simp add: process_file_extract_raises)
next
  case (no_text ftype)
  with assms show ?thesis by (simp add: process_file_no_text)
next
  case (chunk_raises body ftype e)
  with assms show ?thesis by (simp add: process_file_chunk_raises)
next
  case (embed_raises body ftype chunks e)
  with assms show ?thesis by (simp add: process_file_embed_raises)
next
  case (add_raises body ftype chunks embeddings)
  then have "add (vs s) embeddings (metadatas_of (uf_name uf) chunks)
               = (vs s, Some (StoreError ''length mismatch''))"
    by (simp add: add_mismatch metadatas_of_length)
  with add_raises assms show ?thesis
    by (simp add: process_file_add_raises)
next
  case (stored body ftype chunks embeddings)
  let ?new = "zip embeddings (metadatas_of (uf_name uf) chunks)"
  from stored have "add (vs s) embeddings (metadatas_of (uf_name uf) chunks)
               = ((vs s)\<lparr>entries := entries (vs s) @ ?new\<rparr>, None)"
    by (simp add: add_match metadatas_of_length)
  with stored assms have es: "entries (vs s') = entries (vs s) @ ?new"
    by (auto simp: process_file_stored render_def)
  have len: "length ?new = length chunks"
    using stored(5) by (simp add: metadatas_of_length)
  have nth: "?new ! i = (embeddings ! i,
                 \<lparr>md_document = uf_name uf, md_chunk_index = i, md_text = chunks ! i\<rparr>)"
    if "i < length chunks" for i
    using that stored(5) by (simp add: metadatas_of_length metadatas_of_nth)
  from es len nth have
    "length (entries (vs s')) = length (entries (vs s)) + length chunks \<and>
     take (length (entries (vs s))) (entries (vs s')) = entries (vs s) \<and>
     (\<forall>i<length chunks.
        entries (vs s') ! (length (entries (vs s)) + i) =
          (embeddings ! i,
           \<lparr>md_document = uf_name uf, md_chunk_index = i, md_text = chunks ! i\<rparr>))"
    by (simp add: nth_append)
  with stored show ?thesis by blast
qed

theorem stored_metadata_witness:
  "\<exists>s'. process_file sample_env (sample_file ''notes.txt'' ''abc'') (initial_session, 0)
           = Inr (s', Suc 0) \<and>
        entries (vs s') ! 0 =
          ([1, 0], \<lparr>md_document = ''notes.txt'', md_chunk_index = 0, md_text = ''abc''\<rparr>)"
proof -
  have "\<exists>s'. process_file sample_env (sample_file ''notes.txt'' ''abc'') (initial_session, 0)
           = Inr (s', Suc 0)"
    by (simp add: process_file_def store_chunks_def add_def metadatas_of_def sample_env_def
        sample_file_def Let_def)
  then obtain s' where run:
    "process_file sample_env (sample_file ''notes.txt'' ''abc'') (initial_session, 0) = Inr (s', Suc 0)"
    by blast
  from stored_metadata [OF run] obtain body ftype chunks embeddings where
    "extract_text_from_uploaded_file sample_env (sample_file ''notes.txt'' ''abc'') = Inr (body, ftype)"
    "chunk_text sample_env body = Inr chunks"
    "get_embeddings_batch sample_env chunks (Some (uf_name (sample_file ''notes.txt'' ''abc''))) = Inr embeddings"
    "\<forall>i<length chunks.
        entries (vs s') ! (length (entries (vs initial_session)) + i) =
          (embeddings ! i,
           \<lparr>md_document = uf_name (sample_file ''notes.txt'' ''abc''), md_chunk_index = i, md_text = chunks ! i\<rparr>)"
    by blast
  then have "entries (vs s') ! 0 =
          ([1, 0], \<lparr>md_document = ''notes.txt'', md_chunk_index = 0, md_text = ''abc''\<rparr>)"
    by (auto simp: sample_env_def sample_file_def initial_session_def empty_store_def)
  with run show ?thesis by blast
qed

subsection \<open>Files without text\<close>

text \<open>
  Claim C9. A file whose extracted text is empty is skipped with a warning: the store,
  the document list and the count of processed files are unchanged, the page gains the
  notice and the warning only, the outcome does not depend on the chunker, the embedder
  or any collaborator other than the extractor, and the loop goes on with the next file.
\<close>

theorem empty_text_is_skipped:
  assumes "extract_text_from_uploaded_file env uf = Inr ([], ftype)"
  shows "process_file env uf (s, n) =
           Inr (render (StWarning (''No text found in '' @ uf_name uf))
                  (render (StInfo (''Processing '' @ uf_name uf)) s), n) \<and>
         (\<exists>s'. process_file env uf (s, n) = Inr (s', n) \<and> vs s' = vs s \<and>
               documents s' = documents s \<and>
               page s' = page s @ [StInfo (''Processing '' @ uf_name uf),
                                   StWarning (''No text found in '' @ uf_name uf)]) \<and>
         (\<forall>env'::env. extract_text_from_uploaded_file env' = extract_text_from_uploaded_file env
              \<longrightarrow> process_file env' uf (s, n) = process_file env uf (s, n)) \<and>
         process_files env (uf # ufs) (s, n) =
           process_files env ufs
             (render (StWarning (''No text found in '' @ uf_name uf))
                (render (StInfo (''Processing '' @ uf_name uf)) s), n)"
proof (intro conjI allI impI)
  show step: "process_file env uf (s, n) =
           Inr (render (StWarning (''No text found in '' @ uf_name uf))
                  (render (StInfo (''Processing '' @ uf_name uf)) s), n)"
    using assms by (rule process_file_no_text)
  then show "\<exists>s'. process_file env uf (s, n) = Inr (s', n) \<and> vs s' = vs s \<and>
               documents s' = documents s \<and>
               page s' = page s @ [StInfo (''Processing '' @ uf_name uf),
                                   StWarning (''No text found in '' @ uf_name uf)]"
    by (simp add: render_def)
  from step show "process_files env (uf # ufs) (s, n) =
           process_files env ufs
             (render (StWarning (''No text found in '' @ uf_name uf))
                (render (StInfo (''Processing '' @ uf_name uf)) s), n)"
    by (rule process_files_step)
next
  fix env' :: env
  assume "extract_text_from_uploaded_file env' = extract_text_from_uploaded_file env"
  with assms have "extract_text_from_uploaded_file env' uf = Inr ([], ftype)"
    by simp
  then show "process_file env' uf (s, n) = process_file env uf (s, n)"
    using assms by (simp add: process_file_no_text)
qed

theorem empty_text_is_skipped_witness:
  "extract_text_from_uploaded_file sample_env (sample_file ''blank.txt'' '''') = Inr ('''', ''txt'') \<and>
   process_file sample_env (sample_file ''blank.txt'' '''') (initial_session, 0) =
     Inr (render (StWarning ''No text found in blank.txt'')
            (render (StInfo ''Processing blank.txt'') initial_session), 0)"
proof -
  have ex: "extract_text_from_uploaded_file sample_env (sample_file ''blank.txt'' '''') = Inr ('''', ''txt'')"
    by (simp add: sample_env_def sample_file_def)
  from empty_text_is_skipped [OF ex, of initial_session 0 "[]"] ex show ?thesis
    by (simp add: sample_file_def)
qed

subsection \<open>Failure of the answer generator\<close>

text \<open>
  Claim C7. When the question is not blank, the search has found hits and the answer
  generator raises, the run ends normally: the page shows the error message of the
  exception, then the answer box holding the fixed text "Error: Unable to generate
  answer.", then the sources; the store and the document list are unchanged.
\<close>

theorem generation_failure_is_reported:
  assumes "\<not> blank question"
    and "retrieve env question top_k s = (s1, hits)"
    and "hits \<noteq> []"
    and "generate_answer env question (contexts_of hits) = Inl e"
  shows "page (answer_question env question top_k s) =
           page s1 @ [StError (''Answer generation error: '' @ str_exn e),
                      AnswerBox ''Error: Unable to generate answer.'']
                   @ map source_box (enumerate 1 hits) \<and>
         vs (answer_question env question top_k s) = vs s \<and>
         documents (answer_question env question top_k s) = documents s \<and>
         rerun env (GetAnswer question) s = Inr (main_view env (Some question) (s\<lparr>page := []\<rparr>))"
proof -
  from assms(4) have "answer_or_error env question (contexts_of hits) s1 =
      (render (StError (''Answer generation error: '' @ str_exn e)) s1,
       ''Error: Unable to generate answer.'')"
    by (simp add: answer_or_error_def)
  with assms(1-3) have "page (answer_question env question top_k s) =
           page s1 @ [StError (''Answer generation error: '' @ str_exn e),
                      AnswerBox ''Error: Unable to generate answer.'']
                   @ map source_box (enumerate 1 hits)"
    by (simp add: answer_question_def foldl_render page_render)
  moreover have "rerun env (GetAnswer question) s = Inr (main_view env (Some question) (s\<lparr>page := []\<rparr>))"
    by (simp add: rerun_def)
  ultimately show ?thesis
    by (simp add: answer_question_frame)
qed

theorem generation_failure_is_reported_witness:
  "\<not> blank ''why?'' \<and>
   retrieve sample_env ''why?'' 2 sample_session =
     (sample_session,
      [\<lparr>score = 1, hit_metadata = sample_metadata 0\<rparr>, \<lparr>score = 1, hit_metadata = sample_metadata 2\<rparr>]) \<and>
   generate_answer sample_env ''why?''
     (contexts_of [\<lparr>score = 1, hit_metadata = sample_metadata 0\<rparr>,
                   \<lparr>score = 1, hit_metadata = sample_metadata 2\<rparr>]) = Inl (Raised ''timeout'') \<and>
   page (answer_question sample_env ''why?'' 2 sample_session) =
     [StError ''Answer generation error: timeout'', AnswerBox ''Error: Unable to generate answer.'',
      source_box (1, \<lparr>score = 1, hit_metadata = sample_metadata 0\<rparr>),
      source_box (2, \<lparr>score = 1, hit_metadata = sample_metadata 2\<rparr>)]"
proof -
  let ?hits = "[\<lparr>score = 1, hit_metadata = sample_metadata 0\<rparr>, \<lparr>score = 1, hit_metadata = sample_metadata 2\<rparr>]"
  have q: "\<not> blank ''why?''"
    by (simp add: blank_def ascii_space_def two_byte_space_def three_byte_space_def)
  have found: "search sample_store [1, 0] 2 = Inr ?hits"
    by (simp add: sample_store_def search_def cosine_similarity_def vec_norm_def dot_def
        ranking_def hit_at_def enumerate_eq_zip)
  have r: "retrieve sample_env ''why?'' 2 sample_session = (sample_session, ?hits)"
    by (simp add: retrieve_def sample_env_def sample_session_def found)
  have ne: "?hits \<noteq> []"
    by simp
  have g: "generate_answer sample_env ''why?'' (contexts_of ?hits) = Inl (Raised ''timeout'')"
    by (simp add: sample_env_def)
  from generation_failure_is_reported [OF q r ne g]
  have "page (answer_question sample_env ''why?'' 2 sample_session) =
     [StError ''Answer generation error: timeout'', AnswerBox ''Error: Unable to generate answer.'',
      source_box (1, \<lparr>score = 1, hit_metadata = sample_metadata 0\<rparr>),
      source_box (2, \<lparr>score = 1, hit_metadata = sample_metadata 2\<rparr>)]"
    by (simp add: sample_session_def enumerate_eq_zip numeral_2_eq_2)
  with q r g show ?thesis by blast
qed

subsection \<open>Agreement of the document list and the store\<close>

text \<open>
  Claim C8. The document list and the store agree after every run of the script, from
  the initial session on, whether the run ends normally or by an exception. Clearing
  empties the store and the document list together. The loop body appends a document
  record only when the insertion of that file has succeeded, and the record's count of
  chunks is the number of entries the insertion added.
\<close>

theorem session_stays_consistent:
  "consistent (runs steps initial_session) \<and>
   (consistent s \<longrightarrow> consistent (state_after (rerun env ev s))) \<and>
   entries (vs (state_after (rerun env ClearAllData s))) = [] \<and>
   documents (state_after (rerun env ClearAllData s)) = [] \<and>
   (process_file env uf (s, n) = Inr (s', n') \<longrightarrow>
      (documents s' = documents s \<and> vs s' = vs s \<and> n' = n) \<or>
      (\<exists>body ftype chunks embeddings.
          extract_text_from_uploaded_file env uf = Inr (body, ftype) \<and>
          chunk_text env body = Inr chunks \<and>
          get_embeddings_batch env chunks (Some (uf_name uf)) = Inr embeddings \<and>
          add (vs s) embeddings (metadatas_of (uf_name uf) chunks) = (vs s', None) \<and>
          entries (vs s') = entries (vs s) @ zip embeddings (metadatas_of (uf_name uf) chunks) \<and>
          length (zip embeddings (metadatas_of (uf_name uf) chunks)) = length chunks \<and>
          documents s' = documents s @
            [\<lparr>doc_name = uf_name uf, doc_length = py_len body,
              doc_chunks = length chunks, doc_uploaded_at = clock env uf\<rparr>] \<and>
          n' = Suc n))"
proof (intro conjI impI)
  show "consistent (runs steps initial_session)"
    using consistent_initial by (rule runs_consistent)
  show "consistent (state_after (rerun env ev s))" if "consistent s"
    using that by (rule rerun_consistent)
  show "entries (vs (state_after (rerun env ClearAllData s))) = []"
    by (simp add: rerun_def state_after_def main_view_frame clear_all_data_def vs_render reset_def)
  show "documents (state_after (rerun env ClearAllData s)) = []"
    by (simp add: rerun_def state_after_def main_view_frame clear_all_data_def documents_render)
next
  assume run: "process_file env uf (s, n) = Inr (s', n')"
  let ?unchanged = "documents s' = documents s \<and> vs s' = vs s \<and> n' = n"
  let ?appended = "\<exists>body ftype chunks embeddings.
          extract_text_from_uploaded_file env uf = Inr (body, ftype) \<and>
          chunk_text env body = Inr chunks \<and>
          get_embeddings_batch env chunks (Some (uf_name uf)) = Inr embeddings \<and>
          add (vs s) embeddings (metadatas_of (uf_name uf) chunks) = (vs s', None) \<and>
          entries (vs s') = entries (vs s) @ zip embeddings (metadatas_of (uf_name uf) chunks) \<and>
          length (zip embeddings (metadatas_of (uf_name uf) chunks)) = length chunks \<and>
          documents s' = documents s @
            [\<lparr>doc_name = uf_name uf, doc_length = py_len body,
              doc_chunks = length chunks, doc_uploaded_at = clock env uf\<rparr>] \<and>
          n' = Suc n"
  show "?unchanged \<or> ?appended"
  proof (cases rule: process_file_cases [of env uf])
    case (extract_raises e)
    with run have ?unchanged by (auto simp: process_file_extract_raises render_def)
    then show ?thesis ..
  next
    case (no_text ftype)
    with run have ?unchanged by (auto simp: process_file_no_text render_def)
    then show ?thesis ..
  next
    case (chunk_raises body ftype e)
    with run show ?thesis by (simp add: process_file_chunk_raises)
  next
    case (embed_raises body ftype chunks e)
    with run have ?unchanged by (auto simp: process_file_embed_raises render_def)
    then show ?thesis ..
  next
    case (add_raises body ftype chunks embeddings)
    then have "add (vs s) embeddings (metadatas_of (uf_name uf) chunks)
                 = (vs s, Some (StoreError ''length mismatch''))"
      by (simp add: add_mismatch metadatas_of_length)
    with add_raises run have ?unchanged
      by (auto simp: process_file_add_raises render_def)
    then show ?thesis ..
  next
    case (stored body ftype chunks embeddings)
    let ?new = "zip embeddings (metadatas_of (uf_name uf) chunks)"
    from stored have added: "add (vs s) embeddings (metadatas_of (uf_name uf) chunks)
                 = ((vs s)\<lparr>entries := entries (vs s) @ ?new\<rparr>, None)"
      by (simp add: add_match metadatas_of_length)
    from stored(5) have len: "length ?new = length chunks"
      by (simp add: metadatas_of_length)
    from process_file_stored [OF stored(1-4) added, where n = n] run
    have "vs s' = (vs s)\<lparr>entries := entries (vs s) @ ?new\<rparr>"
      and "documents s' = documents s @
            [\<lparr>doc_name = uf_name uf, doc_length = py_len body,
              doc_chunks = length chunks, doc_uploaded_at = clock env uf\<rparr>]"
      and "n' = Suc n"
      by (auto simp: render_def)
    with stored added len have ?appended
      by auto
    then show ?thesis ..
  qed
qed

theorem session_stays_consistent_witness:
  "consistent sample_session \<and>
   consistent (state_after (rerun sample_env (GetAnswer ''why?'') sample_session)) \<and>
   (\<exists>s'. process_file sample_env (sample_file ''notes.txt'' ''abc'') (initial_session, 0)
            = Inr (s', Suc 0) \<and>
         documents s' = [\<lparr>doc_name = ''notes.txt'', doc_length = 3, doc_chunks = 1,
                          doc_uploaded_at = ''2024-01-01 09:00''\<rparr>] \<and>
         length (entries (vs s')) = 1)"
proof -
  note inst = session_stays_consistent [where env = sample_env]
  have c: "consistent sample_session"
    by (simp add: consistent_def sample_session_def sample_store_def sample_metadata_def
        tags_of_document_def upt_rec)
  with inst [where s = sample_session and ev = "GetAnswer ''why?''"]
  have c': "consistent (state_after (rerun sample_env (GetAnswer ''why?'') sample_session))"
    by blast
  have "\<exists>s'. process_file sample_env (sample_file ''notes.txt'' ''abc'') (initial_session, 0)
           = Inr (s', Suc 0)"
    by (simp add: process_file_def store_chunks_def add_def metadatas_of_def sample_env_def
        sample_file_def Let_def)
  then obtain s' where run:
    "process_file sample_env (sample_file ''notes.txt'' ''abc'') (initial_session, 0) = Inr (s', Suc 0)"
    by blast
  note step = inst [where uf = "sample_file ''notes.txt'' ''abc''" and s = initial_session
      and n = 0 and s' = s' and n' = "Suc 0",
      THEN conjunct2, THEN conjunct2, THEN conjunct2, THEN conjunct2, THEN mp, OF run]
  then have "\<exists>body ftype chunks embeddings.
    extract_text_from_uploaded_file sample_env (sample_file ''notes.txt'' ''abc'') = Inr (body, ftype) \<and>
    chunk_text sample_env body = Inr chunks \<and>
    get_embeddings_batch sample_env chunks (Some (uf_name (sample_file ''notes.txt'' ''abc''))) = Inr embeddings \<and>
    entries (vs s') = entries (vs initial_session)
        @ zip embeddings (metadatas_of (uf_name (sample_file ''notes.txt'' ''abc'')) chunks) \<and>
    documents s' = documents initial_session @
            [\<lparr>doc_name = uf_name (sample_file ''notes.txt'' ''abc''), doc_length = py_len body,
              doc_chunks = length chunks, doc_uploaded_at = clock sample_env (sample_file ''notes.txt'' ''abc'')\<rparr>]"
    by (elim disjE exE conjE) (simp, blast)
  then obtain body ftype chunks embeddings where
    "extract_text_from_uploaded_file sample_env (sample_file ''notes.txt'' ''abc'') = Inr (body, ftype)"
    "chunk_text sample_env body = Inr chunks"
    "get_embeddings_batch sample_env chunks (Some (uf_name (sample_file ''notes.txt'' ''abc''))) = Inr embeddings"
    "entries (vs s') = entries (vs initial_session)
        @ zip embeddings (metadatas_of (uf_name (sample_file ''notes.txt'' ''abc'')) chunks)"
    "documents s' = documents initial_session @
            [\<lparr>doc_name = uf_name (sample_file ''notes.txt'' ''abc''), doc_length = py_len body,
              doc_chunks = length chunks, doc_uploaded_at = clock sample_env (sample_file ''notes.txt'' ''abc'')\<rparr>]"
    by blast
  then have "documents s' = [\<lparr>doc_name = ''notes.txt'', doc_length = 3, doc_chunks = 1,
                          doc_uploaded_at = ''2024-01-01 09:00''\<rparr>] \<and>
         length (entries (vs s')) = 1"
    by (auto simp: sample_env_def sample_file_def initial_session_def empty_store_def
        metadatas_of_def py_len_def is_continuation_def)
  with c c' run show ?thesis by blast
qed

subsection \<open>The number of retrieved chunks\<close>

text \<open>
  Claim C10. Provided the slider widget keeps its value between its bounds, every call
  of \<open>search\<close> the script makes has for \<open>top_k\<close> the value \<open>k\<close> of the slider with bounds 1
  and 10 and default 4, so \<open>1 \<le> k \<le> 10\<close>. A run in which "Get Answer" is pressed, with
  documents present, a question that is not blank and an embedding of the question,
  calls \<open>search\<close> on the store with that embedding and \<open>k\<close>, and what the run shows depends
  on the store's search through the outcome of this one call only. In every other case
  the run shows a page that is fixed without any search.
\<close>

theorem top_k_in_slider_range:
  assumes "slider_in_range env"
  shows "\<exists>k. k = slider env 1 10 4 \<and> 1 \<le> k \<and> k \<le> 10 \<and>
           rerun env (GetAnswer question) s0 =
             Inr (main_view env (Some question) (s0\<lparr>page := []\<rparr>)) \<and>
           (documents s \<noteq> [] \<and> \<not> blank question \<and>
            get_embeddings_batch env [question] None = Inr (q_emb # others) \<longrightarrow>
              retrieve env question k (render (Dataframe (documents s)) s) =
                (case search (vs s) q_emb k of
                   Inl e \<Rightarrow> (render (StError (''Search error: '' @ str_exn e))
                              (render (Dataframe (documents s)) s), [])
                 | Inr hits \<Rightarrow> (render (Dataframe (documents s)) s, hits)) \<and>
              main_view env (Some question) s =
                after_search env question (search (vs s) q_emb k)
                  (render (Dataframe (documents s)) s)) \<and>
           (documents s \<noteq> [] \<and> \<not> blank question \<and>
            get_embeddings_batch env [question] None = Inl e \<longrightarrow>
              main_view env (Some question) s =
                render (StWarning ''No relevant passages found. Please upload documents first.'')
                  (render (StError (''Search error: '' @ str_exn e))
                     (render (Dataframe (documents s)) s))) \<and>
           (documents s \<noteq> [] \<and> \<not> blank question \<and>
            get_embeddings_batch env [question] None = Inr [] \<longrightarrow>
              main_view env (Some question) s =
                render (StWarning ''No relevant passages found. Please upload documents first.'')
                  (render (StError (''Search error: '' @ str_exn IndexError))
                     (render (Dataframe (documents s)) s))) \<and>
           (documents s \<noteq> [] \<and> blank question \<longrightarrow>
              main_view env (Some question) s =
                render (StWarning ''Please enter a question first.'')
                  (render (Dataframe (documents s)) s)) \<and>
           (documents s = [] \<longrightarrow> main_view env (Some question) s = main_view env None s) \<and>
           (documents s \<noteq> [] \<longrightarrow> main_view env None s = render (Dataframe (documents s)) s)"
proof -
  let ?k = "slider env 1 10 4" and ?s1 = "render (Dataframe (documents s)) s"
  from assms have range: "1 \<le> ?k \<and> ?k \<le> 10"
    by (simp add: slider_in_range_def)
  have run: "rerun env (GetAnswer question) s0 =
      Inr (main_view env (Some question) (s0\<lparr>page := []\<rparr>))"
    by (simp add: rerun_def)
  have view: "main_view env (Some question) s = answer_question env question ?k ?s1"
    if "documents s \<noteq> []"
    using that by (simp add: main_view_def Let_def)
  have found: "retrieve env question ?k ?s1 =
                (case search (vs s) q_emb ?k of
                   Inl e \<Rightarrow> (render (StError (''Search error: '' @ str_exn e)) ?s1, [])
                 | Inr hits \<Rightarrow> (?s1, hits)) \<and>
              main_view env (Some question) s =
                after_search env question (search (vs s) q_emb ?k) ?s1"
    if "documents s \<noteq> [] \<and> \<not> blank question \<and>
        get_embeddings_batch env [question] None = Inr (q_emb # others)"
    using that view
    by (cases "search (vs s) q_emb ?k")
       (simp_all add: retrieve_def answer_question_def after_search_def vs_render)
  have raised: "main_view env (Some question) s =
                render (StWarning ''No relevant passages found. Please upload documents first.'')
                  (render (StError (''Search error: '' @ str_exn e)) ?s1)"
    if "documents s \<noteq> [] \<and> \<not> blank question \<and>
        get_embeddings_batch env [question] None = Inl e"
    using that view by (simp add: retrieve_def answer_question_def)
  have none: "main_view env (Some question) s =
                render (StWarning ''No relevant passages found. Please upload documents first.'')
                  (render (StError (''Search error: '' @ str_exn IndexError)) ?s1)"
    if "documents s \<noteq> [] \<and> \<not> blank question \<and>
        get_embeddings_batch env [question] None = Inr []"
    using that view by (simp add: retrieve_def answer_question_def)
  have empty: "main_view env (Some question) s =
                render (StWarning ''Please enter a question first.'') ?s1"
    if "documents s \<noteq> [] \<and> blank question"
    using that view by (simp add: answer_question_def)
  have nodocs: "main_view env (Some question) s = main_view env None s" if "documents s = []"
    using that by (simp add: main_view_def)
  have idle: "main_view env None s = ?s1" if "documents s \<noteq> []"
    using that by (simp add: main_view_def Let_def)
  from range run found raised none empty nodocs idle show ?thesis
    by blast
qed

theorem top_k_in_slider_range_witness:
  "slider_in_range sample_env \<and> slider sample_env 1 10 4 = 4 \<and>
   \<not> blank ''why?'' \<and>
   get_embeddings_batch sample_env [''why?''] None = Inr [[1, 0]] \<and>
   main_view sample_env (Some ''why?'') sample_session =
     after_search sample_env ''why?'' (search sample_store [1, 0] 4)
       (render (Dataframe (documents sample_session)) sample_session)"
proof -
  have c: "slider_in_range sample_env"
    by (simp add: slider_in_range_def sample_env_def)
  have d: "slider sample_env 1 10 4 = 4"
    by (simp add: sample_env_def)
  have q: "\<not> blank ''why?''"
    by (simp add: blank_def ascii_space_def two_byte_space_def three_byte_space_def)
  have docs: "documents sample_session \<noteq> []" and store: "vs sample_session = sample_store"
    by (simp_all add: sample_session_def)
  have emb: "get_embeddings_batch sample_env [''why?''] None = Inr [[1, 0]]"
    by (simp add: sample_env_def)
  from top_k_in_slider_range [OF c, where question = "''why?''" and s = sample_session
      and q_emb = "[1, 0]" and others = "[]"] d q docs emb
  have "main_view sample_env (Some ''why?'') sample_session =
     after_search sample_env ''why?'' (search (vs sample_session) [1, 0] 4)
       (render (Dataframe (documents sample_session)) sample_session)"
    by auto
  with c d q emb store show ?thesis by simp
qed

end
